theory Spec2Isabelle
  imports Main "HOL-Library.AList"
begin

section \<open>JavaScript values\<close>

text \<open>
  The node of \<^verbatim>\<open>src/index.js\<close> handles plain JavaScript values: the objects its
  callers pass in, and whatever \<^verbatim>\<open>JSON.parse\<close> returns for a datagram. An object is an
  association list from property names to values, in insertion order; reading a property
  that is not there gives \<^verbatim>\<open>undefined\<close>. A number is an integer; up to
  \<open>2\<^sup>5\<^sup>3\<close> in magnitude these are the integers that JavaScript holds and prints
  exactly. A string is a list of characters below U+0100.
\<close>

datatype jsval =
    JUndefined
  | JNull
  | JBool bool
  | JNum int
  | JStr string
  | JArr "jsval list"
  | JObj "(string \<times> jsval) list"

type_synonym jsobj = "(string \<times> jsval) list"

text \<open>
  A function is the default no-op of \<^verbatim>\<open>DEFAULTS\<close>, or a function of the application,
  identified by a number: one that returns without calling into the node, or one that
  throws. An argument of the API is a value or a function.
\<close>

datatype fn = NO_OP | Closure nat | Throwing nat

datatype jsarg = Value jsval | Function fn

fun returns :: "fn \<Rightarrow> bool" where
  "returns NO_OP = True"
| "returns (Closure k) = True"
| "returns (Throwing k) = False"

fun truthy :: "jsval \<Rightarrow> bool" where
  "truthy JUndefined = False"
| "truthy JNull = False"
| "truthy (JBool b) = b"
| "truthy (JNum i) = (i \<noteq> 0)"
| "truthy (JStr s) = (s \<noteq> [])"
| "truthy (JArr xs) = True"
| "truthy (JObj kvs) = True"

fun truthy_arg :: "jsarg \<Rightarrow> bool" where
  "truthy_arg (Value v) = truthy v"
| "truthy_arg (Function f) = True"

fun is_function :: "jsarg \<Rightarrow> bool" where
  "is_function (Value v) = False"
| "is_function (Function f) = True"

text \<open>\<^verbatim>\<open>a || b\<close>\<close>

definition js_or :: "jsval \<Rightarrow> jsval \<Rightarrow> jsval" where
  "js_or a b = (if truthy a then a else b)"

text \<open>\<^verbatim>\<open>obj.k\<close> on an object, and on any value other than \<^verbatim>\<open>null\<close> and
  \<^verbatim>\<open>undefined\<close> (where the read throws; the caller checks for that first).\<close>

definition js_get :: "jsobj \<Rightarrow> string \<Rightarrow> jsval" where
  "js_get obj k = (case map_of obj k of None \<Rightarrow> JUndefined | Some v \<Rightarrow> v)"

fun get_prop :: "jsval \<Rightarrow> string \<Rightarrow> jsval" where
  "get_prop (JObj kvs) k = js_get kvs k"
| "get_prop v k = JUndefined"

text \<open>\<^verbatim>\<open>a === b\<close>: arrays and objects are compared by reference, and a value that was
  just parsed is never the same reference as one the node holds.\<close>

fun strict_eq :: "jsval \<Rightarrow> jsval \<Rightarrow> bool" where
  "strict_eq (JArr xs) b = False"
| "strict_eq (JObj kvs) b = False"
| "strict_eq a b = (a = b)"

datatype exn =
    NotConfigured
  | MissingAddress
  | MissingType
  | MissingParamType
  | MissingParamCallback
  | InvalidParamCallback
  | TypeError
  | SyntaxError
  | ApplicationError

text \<open>
  Every \<^verbatim>\<open>throw new Error(...)\<close> of the source is one constructor of \<^typ>\<open>exn\<close>:
  \<^item> \<^const>\<open>NotConfigured\<close>: "Current node was not set up. Set it up using set({...}) before
    sending messages."
  \<^item> \<^const>\<open>MissingAddress\<close>: "Required params for ping method: address"
  \<^item> \<^const>\<open>MissingType\<close>: "Missing property "message.type" when calling send(message, callback)."
  \<^item> \<^const>\<open>MissingParamType\<close>: "Missing param "type" when calling on(type, callback)." and
    the same for off(type, index)
  \<^item> \<^const>\<open>MissingParamCallback\<close>: "Missing param "callback" when calling on(type, callback)."
  \<^item> \<^const>\<open>InvalidParamCallback\<close>: "Invalid param "callback" when calling
    on(type, callback). Must be a function."

  \<^const>\<open>TypeError\<close> and \<^const>\<open>SyntaxError\<close> are the exceptions of the language itself:
  a property read on \<^verbatim>\<open>undefined\<close> or \<^verbatim>\<open>null\<close>, a call of something that is not a
  function, a value that cannot be made a string, and \<^verbatim>\<open>JSON.parse\<close> on text that is not
  JSON. \<^const>\<open>ApplicationError\<close> is whatever a function of the application throws.
\<close>

text \<open>
  \<^verbatim>\<open>String(v)\<close>, which is also how a value becomes a property name. A number below
  \<open>10\<^sup>2\<^sup>1\<close> in magnitude prints its digits, and from there on it prints in exponent
  form. JavaScript prints the shortest digits that give the number back: up to
  \<open>2\<^sup>5\<^sup>3\<close> in magnitude these are the digits of the integer, as here (\<open>safe\<close> below),
  and beyond that they need not be. An object prints through \<^verbatim>\<open>Object.prototype.toString\<close>
  unless it has a property \<^verbatim>\<open>toString\<close> of its own, which in a parsed value is never a
  function: then the conversion throws. An array joins the strings of its elements, with
  nothing for \<^verbatim>\<open>null\<close> and \<^verbatim>\<open>undefined\<close>.
\<close>

definition digit_char :: "int \<Rightarrow> char" where
  "digit_char d = ''0123456789'' ! nat d"

function digits :: "int \<Rightarrow> string" where
  "digits i = (if i < 10 then [digit_char i] else digits (i div 10) @ [digit_char (i mod 10)])"
  by pat_completeness auto
termination
  by (relation "measure nat") auto

declare digits.simps [simp del]

definition drop_zeros :: "string \<Rightarrow> string" where
  "drop_zeros s = rev (dropWhile (\<lambda>c. c = CHR ''0'') (rev s))"

definition number_text :: "int \<Rightarrow> string" where
  "number_text i =
     (if i < 10 ^ 21 then digits i
      else (case drop_zeros (digits i) of
              [] \<Rightarrow> digits i
            | [d] \<Rightarrow> d # ''e+'' @ digits (int (length (digits i)) - 1)
            | d # ds \<Rightarrow> d # CHR ''.'' # ds @ ''e+'' @ digits (int (length (digits i)) - 1)))"

definition decimal :: "int \<Rightarrow> string" where
  "decimal i = (if i < 0 then CHR ''-'' # number_text (- i) else number_text i)"

fun to_key :: "jsval \<Rightarrow> exn + string"
  and join_keys :: "jsval list \<Rightarrow> exn + string" where
  "to_key JUndefined = Inr ''undefined''"
| "to_key JNull = Inr ''null''"
| "to_key (JBool b) = Inr (if b then ''true'' else ''false'')"
| "to_key (JNum i) = Inr (decimal i)"
| "to_key (JStr s) = Inr s"
| "to_key (JArr xs) = join_keys xs"
| "to_key (JObj kvs) =
     (if map_of kvs ''toString'' \<noteq> None then Inl TypeError else Inr ''[object Object]'')"
| "join_keys [] = Inr []"
| "join_keys (x # xs) =
     (case (if x = JUndefined \<or> x = JNull then Inr [] else to_key x) of
        Inl e \<Rightarrow> Inl e
      | Inr s \<Rightarrow>
          (if xs = [] then Inr s
           else (case join_keys xs of Inl e \<Rightarrow> Inl e | Inr t \<Rightarrow> Inr (s @ CHR '','' # t))))"

text \<open>The values that \<open>to_key\<close> prints as JavaScript does: every number that the
  conversion looks at is at most \<open>2\<^sup>5\<^sup>3\<close> in magnitude.\<close>

fun safe :: "jsval \<Rightarrow> bool"
  and safe_elements :: "jsval list \<Rightarrow> bool" where
  "safe (JNum i) = (\<bar>i\<bar> \<le> 2 ^ 53)"
| "safe (JArr xs) = safe_elements xs"
| "safe v = True"
| "safe_elements [] = True"
| "safe_elements (x # xs) = (safe x \<and> safe_elements xs)"

text \<open>\<^verbatim>\<open>v.length\<close>\<close>

fun js_length :: "jsval \<Rightarrow> jsval" where
  "js_length (JArr xs) = JNum (int (length xs))"
| "js_length (JStr s) = JNum (int (length s))"
| "js_length (JObj kvs) = js_get kvs ''length''"
| "js_length v = JUndefined"

text \<open>\<^verbatim>\<open>xs.indexOf(v)\<close> on an array compares with \<^verbatim>\<open>===\<close>; on a string it searches for
  \<^verbatim>\<open>String(v)\<close>; a parsed object has no callable \<^verbatim>\<open>indexOf\<close>.\<close>

fun array_indexOf :: "jsval list \<Rightarrow> jsval \<Rightarrow> int" where
  "array_indexOf [] v = -1"
| "array_indexOf (x # xs) v =
     (if strict_eq x v then 0
      else (let i = array_indexOf xs v in if i = -1 then -1 else i + 1))"

fun is_prefix :: "string \<Rightarrow> string \<Rightarrow> bool" where
  "is_prefix [] s = True"
| "is_prefix (c # cs) [] = False"
| "is_prefix (c # cs) (d # ds) = (c = d \<and> is_prefix cs ds)"

fun string_indexOf :: "string \<Rightarrow> string \<Rightarrow> int" where
  "string_indexOf [] t = (if t = [] then 0 else -1)"
| "string_indexOf (c # cs) t =
     (if is_prefix t (c # cs) then 0
      else (let i = string_indexOf cs t in if i = -1 then -1 else i + 1))"

fun indexOf :: "jsval \<Rightarrow> jsval \<Rightarrow> exn + int" where
  "indexOf (JArr xs) v = Inr (array_indexOf xs v)"
| "indexOf (JStr s) v =
     (case to_key v of Inl e \<Rightarrow> Inl e | Inr t \<Rightarrow> Inr (string_indexOf s t))"
| "indexOf a v = Inl TypeError"

text \<open>\<^verbatim>\<open>xs.splice(start, deleteCount)\<close>: the array that is left. A negative start counts
  from the end, and both arguments are clamped to the array.\<close>

definition js_splice :: "'a list \<Rightarrow> int \<Rightarrow> int \<Rightarrow> 'a list" where
  "js_splice xs start deleteCount =
     (let len = int (length xs);
          s = (if start < 0 then max (len + start) 0 else min start len);
          d = min (max deleteCount 0) (len - s)
      in take (nat s) xs @ drop (nat (s + d)) xs)"

section \<open>Datagrams\<close>

text \<open>
  What \<^verbatim>\<open>JSON.stringify\<close> writes is modelled by the value that its text denotes.
  A property whose value is \<^verbatim>\<open>undefined\<close> is not written, and \<^verbatim>\<open>undefined\<close> in an array
  is written as \<^verbatim>\<open>null\<close>.
\<close>

fun json_value :: "jsval \<Rightarrow> jsval"
  and json_elements :: "jsval list \<Rightarrow> jsval list"
  and json_members :: "(string \<times> jsval) list \<Rightarrow> (string \<times> jsval) list" where
  "json_value (JArr xs) = JArr (json_elements xs)"
| "json_value (JObj kvs) = JObj (json_members kvs)"
| "json_value v = v"
| "json_elements [] = []"
| "json_elements (x # xs) = (if x = JUndefined then JNull else json_value x) # json_elements xs"
| "json_members [] = []"
| "json_members ((k, v) # kvs) =
     (if v = JUndefined then json_members kvs else (k, json_value v) # json_members kvs)"

text \<open>The text is ASCII when every string in it is: whatever \<^verbatim>\<open>JSON.stringify\<close> escapes,
  it escapes into ASCII.\<close>

definition ascii_string :: "string \<Rightarrow> bool" where
  "ascii_string s = list_all (\<lambda>c. (of_char c :: nat) < 128) s"

fun ascii :: "jsval \<Rightarrow> bool"
  and ascii_elements :: "jsval list \<Rightarrow> bool"
  and ascii_members :: "(string \<times> jsval) list \<Rightarrow> bool" where
  "ascii (JStr s) = ascii_string s"
| "ascii (JArr xs) = ascii_elements xs"
| "ascii (JObj kvs) = ascii_members kvs"
| "ascii v = True"
| "ascii_elements [] = True"
| "ascii_elements (x # xs) = (ascii x \<and> ascii_elements xs)"
| "ascii_members [] = True"
| "ascii_members ((k, v) # kvs) = (ascii_string k \<and> ascii v \<and> ascii_members kvs)"

text \<open>
  \<^verbatim>\<open>send\<close> passes the text to \<^verbatim>\<open>client.send\<close> with offset 0 and the length of the text
  in characters as the number of bytes. The socket turns the text into UTF-8 and cuts it
  to that number of bytes: all of it when the text is ASCII, and less than all of it when
  there is a character in it that takes more than one byte. A datagram is therefore the
  text of a value, or such a text cut short. \<^verbatim>\<open>encode\<close> and \<^verbatim>\<open>decode\<close> are the names
  of the specification for the two directions; a text that was cut short has lost at least
  its closing brace and does not parse.
\<close>

datatype datagram = JSON_text jsval | Cut_short jsval

definition encode :: "jsval \<Rightarrow> datagram" where
  "encode message =
     (if ascii (json_value message) then JSON_text (json_value message)
      else Cut_short (json_value message))"

fun decode :: "datagram \<Rightarrow> jsval option" where
  "decode (JSON_text v) = Some v"
| "decode (Cut_short v) = None"

section \<open>The node\<close>

definition DEFAULT_PORT :: int where
  "DEFAULT_PORT = 3024"

definition DEFAULT_BROADCAST_ADDRESS :: string where
  "DEFAULT_BROADCAST_ADDRESS = ''255.255.255.255''"

text \<open>The sender of a datagram, as the socket reports it.\<close>

record rinfo =
  address :: string
  port :: nat

text \<open>
  What the node does to the outside: lines handed to the logger (by their fixed text, without
  the name of the node and the values that are printed after it), calls of functions of the
  application with a message and its sender, and calls on the datagram socket.
  \<^verbatim>\<open>client.send\<close> is recorded with the datagram, the port, the address and the
  completion callback of the caller; what the socket does with a call is the socket's.
\<close>

datatype effect =
    Logger_debug string
  | Logger_error string
  | Callback fn jsval rinfo
  | Client_send datagram jsval jsval jsarg
  | Client_on string
  | Client_bind jsval
  | Client_close jsarg

text \<open>The last field counts the listeners that the node has put on the socket for
  \<^verbatim>\<open>'message'\<close>.\<close>

record node =
  events :: "(string \<times> jsarg list) list"
  config :: jsobj
  onNodeCallback :: jsarg
  isClosed :: bool
  listeners :: nat

text \<open>The constructor; its argument is the identifier that \<^verbatim>\<open>uuid()\<close> returns.\<close>

definition UdpNode :: "string \<Rightarrow> node" where
  "UdpNode uuid =
     \<lparr>events = [], config = [(''id'', JStr uuid)], onNodeCallback = Function NO_OP,
      isClosed = False, listeners = 0\<rparr>"

text \<open>\<^verbatim>\<open>set(config)\<close>: four assignments to \<^verbatim>\<open>this.config\<close>, two listeners, and the bind.\<close>

definition set_config :: "node \<Rightarrow> jsobj \<Rightarrow> node \<times> effect list" where
  "set_config n cfg =
     (let c1 = AList.update ''id'' (js_or (js_get cfg ''id'') (js_get (config n) ''id'')) (config n);
          c2 = AList.update ''port'' (js_or (js_get cfg ''port'') (JNum DEFAULT_PORT)) c1;
          c3 = AList.update ''broadcastAddress''
                 (js_or (js_get cfg ''broadcastAddress'') (JStr DEFAULT_BROADCAST_ADDRESS)) c2;
          c4 = AList.update ''name'' (js_or (js_get cfg ''name'') JNull) c3
      in (n\<lparr>config := c4, listeners := Suc (listeners n)\<rparr>,
          [Logger_debug ''-- Setting configuration:'', Client_on ''listening'',
           Client_on ''message'', Client_bind (js_get c4 ''port'')]))"

definition wasSetup :: "node \<Rightarrow> bool" where
  "wasSetup n = (1 < length (map fst (config n)))"

text \<open>
  \<^verbatim>\<open>this.events\<close> is an object literal, so besides the entries that \<^verbatim>\<open>on\<close> makes it
  has what every object inherits from \<^verbatim>\<open>Object.prototype\<close>. Under each of these names
  a read finds a function or an object: a value that is truthy and has no \<^verbatim>\<open>push\<close>,
  \<^verbatim>\<open>map\<close> or \<^verbatim>\<open>splice\<close>.
\<close>

definition Object_prototype_names :: "string list" where
  "Object_prototype_names =
     [''constructor'', ''__defineGetter__'', ''__defineSetter__'', ''hasOwnProperty'',
      ''__lookupGetter__'', ''__lookupSetter__'', ''isPrototypeOf'', ''propertyIsEnumerable'',
      ''toString'', ''valueOf'', ''__proto__'', ''toLocaleString'']"

datatype property = Own "jsarg list" | Inherited | Missing

definition events_get :: "node \<Rightarrow> string \<Rightarrow> property" where
  "events_get n k =
     (case map_of (events n) k of
        Some callbacks \<Rightarrow> Own callbacks
      | None \<Rightarrow> if k \<in> set Object_prototype_names then Inherited else Missing)"

text \<open>A call of what is held as a callback: a value that is not a function cannot be
  called.\<close>

definition call :: "jsarg \<Rightarrow> jsval \<Rightarrow> rinfo \<Rightarrow> effect list \<times> (exn + unit)" where
  "call callback message r =
     (case callback of
        Value v \<Rightarrow> ([], Inl TypeError)
      | Function f \<Rightarrow>
          ([Callback f message r], if returns f then Inr () else Inl ApplicationError))"

text \<open>\<^verbatim>\<open>type in this.events\<close>\<close>

definition isCustomEvent :: "node \<Rightarrow> jsval \<Rightarrow> exn + bool" where
  "isCustomEvent n t =
     (case to_key t of
        Inl e \<Rightarrow> Inl e
      | Inr k \<Rightarrow> Inr (events_get n k \<noteq> Missing))"

text \<open>The callback that \<^verbatim>\<open>onCustomEvent\<close> gives to \<^verbatim>\<open>map\<close>, for one listener after
  the other; an exception ends it.\<close>

fun call_all :: "jsarg list \<Rightarrow> jsval \<Rightarrow> rinfo \<Rightarrow> effect list \<times> (exn + unit)" where
  "call_all [] message r = ([], Inr ())"
| "call_all (callback # callbacks) message r =
     (if is_function callback
      then (case call callback message r of
              (es, Inl e) \<Rightarrow> (es, Inl e)
            | (es, Inr u) \<Rightarrow>
                (case call_all callbacks message r of (es', res) \<Rightarrow> (es @ es', res)))
      else call_all callbacks message r)"

definition onCustomEvent :: "node \<Rightarrow> jsval \<Rightarrow> jsval \<Rightarrow> rinfo \<Rightarrow> effect list \<times> (exn + unit)" where
  "onCustomEvent n t message r =
     (case to_key t of
        Inl e \<Rightarrow> ([], Inl e)
      | Inr k \<Rightarrow>
          (case events_get n k of
             Own callbacks \<Rightarrow>
               (case call_all callbacks message r of
                  (es, res) \<Rightarrow> (Logger_debug (''got '' @ k @ '':'') # es, res))
           | Inherited \<Rightarrow> ([Logger_debug (''got '' @ k @ '':'')], Inl TypeError)
           | Missing \<Rightarrow> ([Logger_debug (''got '' @ k @ '':'')], Inl TypeError)))"

text \<open>\<^verbatim>\<open>send(message, callback)\<close> changes the object it is given; the first component of
  the result is what the caller holds after the call.\<close>

definition send :: "node \<Rightarrow> jsval \<Rightarrow> jsarg \<Rightarrow> jsval \<times> effect list \<times> (exn + unit)" where
  "send n message callback =
     (if \<not> wasSetup n then (message, [], Inl NotConfigured)
      else if message = JUndefined \<or> message = JNull then (message, [], Inl TypeError)
      else if \<not> truthy (get_prop message ''type'') then (message, [], Inl MissingType)
      else
        (case message of
           JObj obj \<Rightarrow>
             (let m1 = AList.update ''from'' (js_get (config n) ''id'') obj;
                  m2 = AList.update ''port'' (js_or (js_get m1 ''port'') (JNum DEFAULT_PORT)) m1;
                  m3 = AList.update ''address''
                         (js_or (js_get m2 ''address'') (JStr DEFAULT_BROADCAST_ADDRESS)) m2
              in (JObj m3,
                  [Client_send (encode (JObj m3)) (js_get m3 ''port'') (js_get m3 ''address'')
                     callback],
                  Inr ()))
         | _ \<Rightarrow> (message, [], Inl MissingType)))"

definition broadcast :: "node \<Rightarrow> jsval \<Rightarrow> effect list \<times> (exn + unit)" where
  "broadcast n params =
     (if \<not> wasSetup n then ([], Inl NotConfigured)
      else
        (let filter = (if truthy params then get_prop params ''filter'' else JUndefined);
             port = (if truthy params then get_prop params ''port'' else JUndefined);
             address = (if truthy params then get_prop params ''address'' else JUndefined);
             data = (if truthy params then get_prop params ''data'' else JUndefined);
             message =
               JObj [(''type'', JStr ''broadcast''),
                     (''node'', JObj (config n)),
                     (''filter'', filter),
                     (''data'', data),
                     (''port'', js_or (js_or port (js_get (config n) ''port'')) (JNum DEFAULT_PORT)),
                     (''address'', js_or address (js_get (config n) ''broadcastAddress''))]
         in (case send n message (Value JUndefined) of
               (m, es, res) \<Rightarrow> (Logger_debug ''looking for nodes:'' # es, res))))"

text \<open>\<^verbatim>\<open>ping({address, port, data = null})\<close> takes its argument apart before anything
  else, which throws when there is none.\<close>

definition ping :: "node \<Rightarrow> jsval \<Rightarrow> effect list \<times> (exn + unit)" where
  "ping n params =
     (if params = JUndefined \<or> params = JNull then ([], Inl TypeError)
      else
        (let address = get_prop params ''address'';
             port = get_prop params ''port'';
             data = (if get_prop params ''data'' = JUndefined then JNull
                     else get_prop params ''data'')
         in if \<not> wasSetup n then ([], Inl NotConfigured)
            else if \<not> truthy address then ([], Inl MissingAddress)
            else
              (let port = js_or port (JNum DEFAULT_PORT);
                   message =
                     JObj [(''type'', JStr ''ping''),
                           (''node'', JObj (config n)),
                           (''data'', data),
                           (''port'', port),
                           (''address'', address)]
               in (case send n message (Value JUndefined) of
                     (m, es, res) \<Rightarrow> (Logger_debug ''sending PING to'' # es, res)))))"

definition pong :: "node \<Rightarrow> jsval \<Rightarrow> rinfo \<Rightarrow> effect list \<times> (exn + unit)" where
  "pong n message r =
     (let pongMessage =
            JObj [(''type'', JStr ''pong''),
                  (''port'', JNum (int (port r))),
                  (''address'', JStr (address r)),
                  (''node'', JObj (config n))]
      in (case send n pongMessage (Value JUndefined) of (m, es, res) \<Rightarrow> (es, res)))"

definition isNodeOfInterest :: "node \<Rightarrow> jsval \<Rightarrow> exn + bool" where
  "isNodeOfInterest n message =
     (if strict_eq (get_prop message ''from'') (js_get (config n) ''id'') then Inr False
      else if \<not> truthy (get_prop message ''filter'')
              \<or> \<not> truthy (js_length (get_prop message ''filter'')) then Inr True
      else if js_get (config n) ''type'' = JUndefined then Inr True
      else (case indexOf (get_prop message ''filter'') (js_get (config n) ''type'') of
              Inl e \<Rightarrow> Inl e
            | Inr i \<Rightarrow> Inr (i \<noteq> -1)))"

text \<open>\<^verbatim>\<open>onNode\<close> stores what it is given, whatever it is.\<close>

definition onNode :: "node \<Rightarrow> jsarg \<Rightarrow> node" where
  "onNode n callback = n\<lparr>onNodeCallback := callback\<rparr>"

definition onPing :: "node \<Rightarrow> jsval \<Rightarrow> rinfo \<Rightarrow> effect list \<times> (exn + unit)" where
  "onPing n message r =
     (case isNodeOfInterest n message of
        Inl e \<Rightarrow> ([], Inl e)
      | Inr False \<Rightarrow> ([], Inr ())
      | Inr True \<Rightarrow>
          (case call (onNodeCallback n) message r of
             (es, Inl e) \<Rightarrow> (Logger_debug ''got PING:'' # es, Inl e)
           | (es, Inr u) \<Rightarrow>
               (case pong n message r of
                  (es', res) \<Rightarrow> (Logger_debug ''got PING:'' # es @ es', res))))"

definition onBroadcast :: "node \<Rightarrow> jsval \<Rightarrow> rinfo \<Rightarrow> effect list \<times> (exn + unit)" where
  "onBroadcast n message r =
     (case isNodeOfInterest n message of
        Inl e \<Rightarrow> ([], Inl e)
      | Inr False \<Rightarrow> ([], Inr ())
      | Inr True \<Rightarrow>
          (case call (onNodeCallback n) message r of
             (es, Inl e) \<Rightarrow> (Logger_debug ''got BROADCAST:'' # es, Inl e)
           | (es, Inr u) \<Rightarrow>
               (case pong n message r of
                  (es', res) \<Rightarrow> (Logger_debug ''got BROADCAST:'' # es @ es', res))))"

definition onPong :: "node \<Rightarrow> jsval \<Rightarrow> rinfo \<Rightarrow> effect list \<times> (exn + unit)" where
  "onPong n message r =
     (case call (onNodeCallback n) message r of
        (es, res) \<Rightarrow> (Logger_debug ''got PONG:'' # es, res))"

text \<open>
  The listener that \<^verbatim>\<open>set\<close> registers for \<^verbatim>\<open>'message'\<close>. The body of its
  \<^verbatim>\<open>try\<close> comes first: it throws, or returns from the listener (\<open>Inr True\<close>), or falls
  out of the block (\<open>Inr False\<close>). \<^verbatim>\<open>JSON.parse\<close> is a parameter: \<open>None\<close> where it
  throws.
\<close>

definition dispatch ::
  "('b \<Rightarrow> jsval option) \<Rightarrow> node \<Rightarrow> 'b \<Rightarrow> rinfo \<Rightarrow> effect list \<times> (exn + bool)" where
  "dispatch JSON_parse n bytes r =
     (case JSON_parse bytes of
        None \<Rightarrow> ([], Inl SyntaxError)
      | Some message \<Rightarrow>
          if message = JNull \<or> message = JUndefined then ([], Inl TypeError)
          else
            (let finish = (\<lambda>(es, res). (es, (case res of Inl e \<Rightarrow> Inl e | Inr u \<Rightarrow> Inr True)))
             in if get_prop message ''type'' = JStr ''ping'' then finish (onPing n message r)
                else if get_prop message ''type'' = JStr ''pong'' then finish (onPong n message r)
                else if get_prop message ''type'' = JStr ''broadcast''
                  then finish (onBroadcast n message r)
                else (case isCustomEvent n (get_prop message ''type'') of
                        Inl e \<Rightarrow> ([], Inl e)
                      | Inr True \<Rightarrow>
                          finish (onCustomEvent n (get_prop message ''type'') message r)
                      | Inr False \<Rightarrow> ([], Inr False))))"

definition message_listener ::
  "('b \<Rightarrow> jsval option) \<Rightarrow> node \<Rightarrow> 'b \<Rightarrow> rinfo \<Rightarrow> effect list \<times> (exn + unit)" where
  "message_listener JSON_parse n bytes r =
     (case dispatch JSON_parse n bytes r of
        (es, Inr True) \<Rightarrow> (es, Inr ())
      | (es, Inr False) \<Rightarrow> (es @ [Logger_debug ''got INVALID message:''], Inr ())
      | (es, Inl ex) \<Rightarrow>
          (es @ [Logger_error ''could not parse client message'',
                 Logger_debug ''got INVALID message:''],
           Inr ()))"

text \<open>
  The socket hands a datagram to every listener that was put on it, one after the other, and
  an exception that left a listener would end that and the processing of the datagrams
  behind it.
\<close>

fun run_listeners ::
  "nat \<Rightarrow> ('b \<Rightarrow> jsval option) \<Rightarrow> node \<Rightarrow> 'b \<Rightarrow> rinfo \<Rightarrow> effect list \<times> (exn + unit)" where
  "run_listeners 0 JSON_parse n bytes r = ([], Inr ())"
| "run_listeners (Suc k) JSON_parse n bytes r =
     (case message_listener JSON_parse n bytes r of
        (es, Inl ex) \<Rightarrow> (es, Inl ex)
      | (es, Inr u) \<Rightarrow>
          (case run_listeners k JSON_parse n bytes r of (es', res) \<Rightarrow> (es @ es', res)))"

definition emit_message ::
  "('b \<Rightarrow> jsval option) \<Rightarrow> node \<Rightarrow> 'b \<Rightarrow> rinfo \<Rightarrow> effect list \<times> (exn + unit)" where
  "emit_message JSON_parse n bytes r = run_listeners (listeners n) JSON_parse n bytes r"

fun receive ::
  "('b \<Rightarrow> jsval option) \<Rightarrow> node \<Rightarrow> ('b \<times> rinfo) list \<Rightarrow> effect list \<times> (exn + unit)" where
  "receive JSON_parse n [] = ([], Inr ())"
| "receive JSON_parse n ((bytes, r) # ds) =
     (case emit_message JSON_parse n bytes r of
        (es, Inl ex) \<Rightarrow> (es, Inl ex)
      | (es, Inr u) \<Rightarrow>
          (case receive JSON_parse n ds of (es', res) \<Rightarrow> (es @ es', res)))"

section \<open>The event registry\<close>

definition on :: "node \<Rightarrow> string \<Rightarrow> jsarg \<Rightarrow> node \<times> (exn + unit)" where
  "on n type callback =
     (if type = [] then (n, Inl MissingParamType)
      else if \<not> truthy_arg callback then (n, Inl MissingParamCallback)
      else if \<not> is_function callback then (n, Inl InvalidParamCallback)
      else
        (let n' = (if events_get n type = Missing
                   then n\<lparr>events := AList.update type [] (events n)\<rparr> else n)
         in (case events_get n' type of
               Own callbacks \<Rightarrow>
                 (n'\<lparr>events := AList.update type (callbacks @ [callback]) (events n')\<rparr>, Inr ())
             | Inherited \<Rightarrow> (n', Inl TypeError)
             | Missing \<Rightarrow> (n', Inl TypeError))))"

definition off :: "node \<Rightarrow> string \<Rightarrow> int option \<Rightarrow> node \<times> (exn + unit)" where
  "off n type index =
     (if type = [] then (n, Inl MissingParamType)
      else
        (case index of
           None \<Rightarrow> (n\<lparr>events := AList.delete type (events n)\<rparr>, Inr ())
         | Some i \<Rightarrow>
             (case events_get n type of
                Own callbacks \<Rightarrow>
                  (n\<lparr>events := AList.update type (js_splice callbacks i 1) (events n)\<rparr>, Inr ())
              | Inherited \<Rightarrow> (n, Inl TypeError)
              | Missing \<Rightarrow> (n, Inl TypeError))))"

definition close :: "node \<Rightarrow> jsarg \<Rightarrow> node \<times> effect list" where
  "close n callback =
     (if isClosed n then (n, [])
      else (n\<lparr>isClosed := True\<rparr>, [Logger_debug ''CLOSE'', Client_close callback]))"

section \<open>Callers and sample data\<close>

text \<open>Repeated calls, as an application makes them: \<^verbatim>\<open>close\<close> several times, and
  \<^verbatim>\<open>on\<close> for one type with one function after the other.\<close>

fun close_all :: "node \<Rightarrow> jsarg list \<Rightarrow> node \<times> effect list" where
  "close_all n [] = (n, [])"
| "close_all n (callback # callbacks) =
     (case close n callback of
        (n', es) \<Rightarrow> (case close_all n' callbacks of (n'', es') \<Rightarrow> (n'', es @ es')))"

fun on_all :: "node \<Rightarrow> string \<Rightarrow> fn list \<Rightarrow> node" where
  "on_all n type [] = n"
| "on_all n type (f # fs) = on_all (fst (on n type (Function f))) type fs"

text \<open>The listeners of a type: \<^verbatim>\<open>this.events[type]\<close>, empty when there is no entry.\<close>

definition registered :: "node \<Rightarrow> string \<Rightarrow> jsarg list" where
  "registered n type =
     (case map_of (events n) type of None \<Rightarrow> [] | Some callbacks \<Rightarrow> callbacks)"


text \<open>A log line, as opposed to a call of the application or of the socket.\<close>

fun is_log :: "effect \<Rightarrow> bool" where
  "is_log (Logger_debug s) = True"
| "is_log (Logger_error s) = True"
| "is_log e = False"

fun is_send :: "effect \<Rightarrow> bool" where
  "is_send (Client_send d p a c) = True"
| "is_send e = False"

text \<open>
  Two nodes in the manner of the repository's tests: each constructed and then set up with
  a name and a role. The tests pass the role as \<^verbatim>\<open>type\<close>, the specification calls it
  \<^verbatim>\<open>role\<close>; the second node is given both.
\<close>

definition node_A :: node where
  "node_A =
     fst (set_config (UdpNode ''a-uuid'') [(''name'', JStr ''node1''), (''type'', JStr ''r1'')])"

definition node_B :: node where
  "node_B =
     fst (set_config (UdpNode ''b-uuid'')
            [(''name'', JStr ''node2''), (''type'', JStr ''r2''), (''role'', JStr ''r2''),
             (''port'', JNum 3025)])"

text \<open>What \<^verbatim>\<open>JSON.parse\<close> gives for a broadcast of the first node that asks for role
  \<^verbatim>\<open>r1\<close> only, and for a ping of the first node.\<close>

definition broadcast_r1 :: jsval where
  "broadcast_r1 =
     JObj [(''type'', JStr ''broadcast''),
           (''node'', JObj (config node_A)),
           (''filter'', JArr [JStr ''r1'']),
           (''port'', JNum 3025),
           (''address'', JStr ''255.255.255.255''),
           (''from'', JStr ''a-uuid'')]"


definition sender_A :: rinfo where
  "sender_A = \<lparr>address = ''192.168.0.10'', port = 3024\<rparr>"

text \<open>The pong of the second node, as an object and as the value of its text.\<close>

definition pong_of_B :: "int \<Rightarrow> jsval" where
  "pong_of_B p =
     JObj [(''type'', JStr ''pong''),
           (''port'', JNum p),
           (''address'', JStr ''192.168.0.10''),
           (''node'', JObj [(''id'', JStr ''b-uuid''), (''port'', JNum 3025),
                            (''broadcastAddress'', JStr ''255.255.255.255''),
                            (''name'', JStr ''node2'')]),
           (''from'', JStr ''b-uuid'')]"


section \<open>Properties of the values\<close>

lemma js_get_update: "js_get (AList.update k v obj) k' = (if k' = k then v else js_get obj k')"
  by (simp add: js_get_def update_conv')

lemma array_indexOf_lower: "- 1 \<le> array_indexOf xs v"
  by (induction xs) (simp_all add: Let_def)

lemma array_indexOf_strings:
  "array_indexOf (map JStr roles) (JStr role) \<noteq> - 1 \<longleftrightarrow> role \<in> set roles"
proof (induction roles)
  case Nil
  show ?case by simp
next
  case (Cons a roles)
  have "array_indexOf (map JStr roles) (JStr role) + 1 \<noteq> - 1"
    using array_indexOf_lower [of "map JStr roles" "JStr role"] by arith
  with Cons show ?case by (auto simp add: Let_def)
qed

lemma js_splice_one:
  assumes "0 \<le> i" and "i < int (length xs)"
  shows "js_splice xs i 1 = take (nat i) xs @ drop (Suc (nat i)) xs"
proof -
  from assms have "nat (i + 1) = Suc (nat i)" by simp
  with assms show ?thesis by (simp add: js_splice_def Let_def)
qed

lemma js_splice_beyond: "int (length xs) \<le> i \<Longrightarrow> js_splice xs i 1 = xs"
  by (simp add: js_splice_def Let_def)




section \<open>Setting up\<close>

lemma set_config_values:
  "js_get (config (fst (set_config n cfg))) ''id''
     = (if truthy (js_get cfg ''id'') then js_get cfg ''id'' else js_get (config n) ''id'')"
  "js_get (config (fst (set_config n cfg))) ''port''
     = (if truthy (js_get cfg ''port'') then js_get cfg ''port'' else JNum 3024)"
  "js_get (config (fst (set_config n cfg))) ''broadcastAddress''
     = (if truthy (js_get cfg ''broadcastAddress'') then js_get cfg ''broadcastAddress''
        else JStr ''255.255.255.255'')"
  "js_get (config (fst (set_config n cfg))) ''name''
     = (if truthy (js_get cfg ''name'') then js_get cfg ''name'' else JNull)"
  by (simp_all add: set_config_def Let_def js_get_update js_or_def DEFAULT_PORT_def
      DEFAULT_BROADCAST_ADDRESS_def)



lemma wasSetup_new: "\<not> wasSetup (UdpNode uuid)"
  by (simp add: wasSetup_def UdpNode_def)


text \<open>Only \<^verbatim>\<open>set\<close> writes to the configuration.\<close>

lemma config_unchanged:
  "config (fst (on n type callback)) = config n"
  "config (fst (off n type index)) = config n"
  "config (onNode n f) = config n"
  "config (fst (close n callback)) = config n"
  by (simp_all add: on_def off_def onNode_def close_def Let_def events_get_def
      split: option.splits property.splits)

text \<open>No assignment of \<^verbatim>\<open>set\<close> writes \<^verbatim>\<open>this.config.type\<close>, the property that
  \<^verbatim>\<open>isNodeOfInterest\<close> reads, and the constructor does not write it either.\<close>

lemma set_config_keeps_type:
  "js_get (config (fst (set_config n cfg))) ''type'' = js_get (config n) ''type''"
  by (simp add: set_config_def Let_def js_get_update)

lemma role_never_stored:
  "js_get (config (fst (set_config (UdpNode uuid) cfg))) ''type'' = JUndefined"
  by (simp add: set_config_keeps_type) (simp add: UdpNode_def js_get_def)

lemma node_A_config:
  "config node_A =
     [(''id'', JStr ''a-uuid''), (''port'', JNum 3024),
      (''broadcastAddress'', JStr ''255.255.255.255''), (''name'', JStr ''node1'')]"
  by (simp add: node_A_def set_config_def UdpNode_def Let_def js_get_def js_or_def
      DEFAULT_PORT_def DEFAULT_BROADCAST_ADDRESS_def)

lemma node_B_config:
  "config node_B =
     [(''id'', JStr ''b-uuid''), (''port'', JNum 3025),
      (''broadcastAddress'', JStr ''255.255.255.255''), (''name'', JStr ''node2'')]"
  by (simp add: node_B_def set_config_def UdpNode_def Let_def js_get_def js_or_def
      DEFAULT_PORT_def DEFAULT_BROADCAST_ADDRESS_def)

lemma node_B_rest:
  "events node_B = []" "onNodeCallback node_B = Function NO_OP" "isClosed node_B = False"
  "listeners node_B = 1"
  by (simp_all add: node_B_def set_config_def UdpNode_def Let_def)

lemma wasSetup_node_B: "wasSetup node_B"
  by (simp add: wasSetup_def node_B_config)

lemma ascii_strings:
  "ascii_string ''type''" "ascii_string ''pong''" "ascii_string ''port''"
  "ascii_string ''address''" "ascii_string ''node''" "ascii_string ''from''"
  "ascii_string ''id''" "ascii_string ''broadcastAddress''" "ascii_string ''name''"
  "ascii_string ''192.168.0.10''" "ascii_string ''255.255.255.255''"
  "ascii_string ''b-uuid''" "ascii_string ''node2''" "ascii_string ''hello''"
  "ascii_string ''text''" "ascii_string ''hey''" "ascii_string ''data''"
  by (simp_all add: ascii_string_def)

lemma encode_pong_of_B: "encode (pong_of_B p) = JSON_text (pong_of_B p)"
  by (simp add: encode_def pong_of_B_def ascii_strings)

section \<open>Sending\<close>







text \<open>
  C4, as the code has it. \<^verbatim>\<open>ping\<close> without an argument, or with \<^verbatim>\<open>null\<close>, throws a
  TypeError whether the node is set up or not. Otherwise, before the node is set up,
  \<^verbatim>\<open>ping\<close>, \<^verbatim>\<open>broadcast\<close> and \<^verbatim>\<open>send\<close> fail with the error for a node that was not set
  up. On a node that is set up, \<^verbatim>\<open>ping\<close> with an argument that has no address fails with
  the error for a missing address, \<^verbatim>\<open>send\<close> without a message, or with \<^verbatim>\<open>null\<close>, throws
  a TypeError, and \<^verbatim>\<open>send\<close> with a message that has no type fails with the error for a
  missing type. Each failure comes before anything else: no line is logged, no datagram is
  sent, and what was given to \<^verbatim>\<open>send\<close> is as the caller passed it. None of the three
  operations writes to the node.
\<close>

theorem send_family_errors:
  "\<not> wasSetup (UdpNode uuid)
   \<and> (params = JUndefined \<or> params = JNull \<longrightarrow> ping n params = ([], Inl TypeError))
   \<and> (\<not> wasSetup n \<longrightarrow>
        (params \<noteq> JUndefined \<and> params \<noteq> JNull \<longrightarrow> ping n params = ([], Inl NotConfigured))
        \<and> broadcast n bparams = ([], Inl NotConfigured)
        \<and> send n message callback = (message, [], Inl NotConfigured))
   \<and> (wasSetup n \<and> params \<noteq> JUndefined \<and> params \<noteq> JNull
        \<and> \<not> truthy (get_prop params ''address'') \<longrightarrow>
        ping n params = ([], Inl MissingAddress))
   \<and> (wasSetup n \<and> (message = JUndefined \<or> message = JNull) \<longrightarrow>
        send n message callback = (message, [], Inl TypeError))
   \<and> (wasSetup n \<and> message \<noteq> JUndefined \<and> message \<noteq> JNull
        \<and> \<not> truthy (get_prop message ''type'') \<longrightarrow>
        send n message callback = (message, [], Inl MissingType))"
  by (simp add: wasSetup_new ping_def broadcast_def send_def Let_def)

theorem send_family_errors_witness:
  "\<not> wasSetup (UdpNode ''a-uuid'')
   \<and> ping (UdpNode ''a-uuid'') (JObj [(''address'', JStr ''0.0.0.0'')]) = ([], Inl NotConfigured)
   \<and> broadcast (UdpNode ''a-uuid'') JUndefined = ([], Inl NotConfigured)
   \<and> send (UdpNode ''a-uuid'') (JObj []) (Value JUndefined) = (JObj [], [], Inl NotConfigured)
   \<and> wasSetup node_B
   \<and> ping node_B JUndefined = ([], Inl TypeError)
   \<and> \<not> truthy (get_prop (JObj []) ''address'')
   \<and> ping node_B (JObj []) = ([], Inl MissingAddress)
   \<and> send node_B JNull (Value JUndefined) = (JNull, [], Inl TypeError)
   \<and> \<not> truthy (get_prop (JObj [(''text'', JStr ''hey'')]) ''type'')
   \<and> send node_B (JObj [(''text'', JStr ''hey'')]) (Value JUndefined)
        = (JObj [(''text'', JStr ''hey'')], [], Inl MissingType)"
proof -
  have a: "\<not> wasSetup (UdpNode ''a-uuid'')" by (rule wasSetup_new)
  have b: "\<not> truthy (get_prop (JObj []) ''address'')"
    "\<not> truthy (get_prop (JObj [(''text'', JStr ''hey'')]) ''type'')"
    by (simp_all add: js_get_def)
  show ?thesis
    using a b wasSetup_node_B
      send_family_errors [of "''a-uuid''" "JObj [(''address'', JStr ''0.0.0.0'')]"
        "UdpNode ''a-uuid''" JUndefined "JObj []" "Value JUndefined"]
      send_family_errors [of "''a-uuid''" JUndefined node_B JUndefined JNull "Value JUndefined"]
      send_family_errors [of "''a-uuid''" "JObj []" node_B JUndefined
        "JObj [(''text'', JStr ''hey'')]" "Value JUndefined"]
    by simp
qed

text \<open>
  C4, as the specification has it, fails for \<^verbatim>\<open>ping\<close> called without an argument: before
  the node is set up the call throws a TypeError, not the error for a node that was not set
  up, and on a node that is set up it throws a TypeError, not the error for a missing
  address. \<^verbatim>\<open>send\<close> without a message on a node that is set up throws a TypeError, not
  the error for a missing type.
\<close>

theorem ping_without_argument_counterexample:
  "\<not> wasSetup (UdpNode ''a-uuid'')
   \<and> ping (UdpNode ''a-uuid'') JUndefined = ([], Inl TypeError)
   \<and> wasSetup node_B
   \<and> ping node_B JUndefined = ([], Inl TypeError)
   \<and> send node_B JUndefined (Value JUndefined) = (JUndefined, [], Inl TypeError)
   \<and> TypeError \<noteq> NotConfigured \<and> TypeError \<noteq> MissingAddress \<and> TypeError \<noteq> MissingType"
  by (simp add: wasSetup_new wasSetup_node_B ping_def send_def)

section \<open>Inbound datagrams\<close>

lemma call_simps:
  "call (Function f) message r =
     ([Callback f message r], if returns f then Inr () else Inl ApplicationError)"
  "call (Value v) message r = ([], Inl TypeError)"
  by (simp_all add: call_def)

lemma call_no_send: "\<forall>e \<in> set (fst (call callback message r)). \<not> is_send e"
  by (cases callback) (simp_all add: call_simps)

lemma message_listener_returns: "snd (message_listener JSON_parse n bytes r) = Inr ()"
  by (simp add: message_listener_def split: prod.splits sum.splits bool.splits)

lemma run_listeners_all:
  "run_listeners k JSON_parse n bytes r =
     (concat (replicate k (fst (message_listener JSON_parse n bytes r))), Inr ())"
proof (induction k)
  case 0
  show ?case by simp
next
  case (Suc k)
  obtain es res where m: "message_listener JSON_parse n bytes r = (es, res)"
    by (cases "message_listener JSON_parse n bytes r")
  from message_listener_returns [of JSON_parse n bytes r] m have "res = Inr ()" by simp
  with Suc m show ?case by simp
qed

lemma emit_message_all:
  "emit_message JSON_parse n bytes r =
     (concat (replicate (listeners n) (fst (message_listener JSON_parse n bytes r))), Inr ())"
  by (simp add: emit_message_def run_listeners_all)

lemma emit_message_once:
  assumes "listeners n = 1"
  shows "emit_message JSON_parse n bytes r = message_listener JSON_parse n bytes r"
proof -
  have "message_listener JSON_parse n bytes r
          = (fst (message_listener JSON_parse n bytes r), Inr ())"
    using message_listener_returns [of JSON_parse n bytes r]
    by (cases "message_listener JSON_parse n bytes r") simp
  with assms show ?thesis by (simp add: emit_message_all)
qed

lemma receive_all:
  "receive JSON_parse n ds =
     (concat (map (\<lambda>(bytes, r). fst (emit_message JSON_parse n bytes r)) ds), Inr ())"
proof (induction ds)
  case Nil
  show ?case by simp
next
  case (Cons d ds)
  obtain bytes r where d: "d = (bytes, r)" by (cases d)
  have m: "emit_message JSON_parse n bytes r
             = (fst (emit_message JSON_parse n bytes r), Inr ())"
    by (simp add: emit_message_all)
  show ?case
    unfolding d by (simp add: Cons) (subst m, simp)
qed

lemma dispatch_unparsable:
  "JSON_parse bytes = None \<Longrightarrow> dispatch JSON_parse n bytes r = ([], Inl SyntaxError)"
  by (simp add: dispatch_def)

lemma dispatch_null:
  "JSON_parse bytes = Some JNull \<Longrightarrow> dispatch JSON_parse n bytes r = ([], Inl TypeError)"
  by (simp add: dispatch_def)

lemma typed_message:
  "get_prop message ''type'' = JStr t \<Longrightarrow> message \<noteq> JNull \<and> message \<noteq> JUndefined"
  by (cases message) simp_all

lemma listener_ping:
  assumes "JSON_parse bytes = Some message" and "get_prop message ''type'' = JStr ''ping''"
  shows "message_listener JSON_parse n bytes r =
           (case onPing n message r of
              (es, Inr u) \<Rightarrow> (es, Inr ())
            | (es, Inl ex) \<Rightarrow>
                (es @ [Logger_error ''could not parse client message'',
                       Logger_debug ''got INVALID message:''], Inr ()))"
  using assms typed_message [OF assms(2)]
  by (simp add: message_listener_def dispatch_def split: prod.splits sum.splits)

lemma listener_broadcast:
  assumes "JSON_parse bytes = Some message"
    and "get_prop message ''type'' = JStr ''broadcast''"
  shows "message_listener JSON_parse n bytes r =
           (case onBroadcast n message r of
              (es, Inr u) \<Rightarrow> (es, Inr ())
            | (es, Inl ex) \<Rightarrow>
                (es @ [Logger_error ''could not parse client message'',
                       Logger_debug ''got INVALID message:''], Inr ()))"
  using assms typed_message [OF assms(2)]
  by (simp add: message_listener_def dispatch_def split: prod.splits sum.splits)

lemma listener_pong:
  assumes "JSON_parse bytes = Some message" and "get_prop message ''type'' = JStr ''pong''"
  shows "message_listener JSON_parse n bytes r =
           (case onPong n message r of
              (es, Inr u) \<Rightarrow> (es, Inr ())
            | (es, Inl ex) \<Rightarrow>
                (es @ [Logger_error ''could not parse client message'',
                       Logger_debug ''got INVALID message:''], Inr ()))"
  using assms typed_message [OF assms(2)]
  by (simp add: message_listener_def dispatch_def split: prod.splits sum.splits)

lemma pong_configured:
  "wasSetup n \<Longrightarrow>
   pong n message r =
     ([Client_send
         (encode
            (JObj [(''type'', JStr ''pong''),
                   (''port'', js_or (JNum (int (port r))) (JNum DEFAULT_PORT)),
                   (''address'', js_or (JStr (address r)) (JStr DEFAULT_BROADCAST_ADDRESS)),
                   (''node'', JObj (config n)),
                   (''from'', js_get (config n) ''id'')]))
         (js_or (JNum (int (port r))) (JNum DEFAULT_PORT))
         (js_or (JStr (address r)) (JStr DEFAULT_BROADCAST_ADDRESS))
         (Value JUndefined)],
      Inr ())"
  by (simp add: pong_def send_def Let_def js_get_def)

lemma onPing_interest:
  "wasSetup n \<Longrightarrow> isNodeOfInterest n message = Inr True \<Longrightarrow>
   onNodeCallback n = Function f \<Longrightarrow> returns f \<Longrightarrow>
   onPing n message r =
     (Logger_debug ''got PING:'' # Callback f message r # fst (pong n message r), Inr ())"
  "isNodeOfInterest n message = Inr False \<Longrightarrow> onPing n message r = ([], Inr ())"
  "isNodeOfInterest n message = Inl ex \<Longrightarrow> onPing n message r = ([], Inl ex)"
  "isNodeOfInterest n message = Inr True \<Longrightarrow> onNodeCallback n = Function f \<Longrightarrow>
   \<not> returns f \<Longrightarrow>
   onPing n message r = ([Logger_debug ''got PING:'', Callback f message r], Inl ApplicationError)"
  "isNodeOfInterest n message = Inr True \<Longrightarrow> onNodeCallback n = Value v \<Longrightarrow>
   onPing n message r = ([Logger_debug ''got PING:''], Inl TypeError)"
  by (simp_all add: onPing_def pong_configured call_simps)

lemma onBroadcast_interest:
  "wasSetup n \<Longrightarrow> isNodeOfInterest n message = Inr True \<Longrightarrow>
   onNodeCallback n = Function f \<Longrightarrow> returns f \<Longrightarrow>
   onBroadcast n message r =
     (Logger_debug ''got BROADCAST:'' # Callback f message r # fst (pong n message r), Inr ())"
  "isNodeOfInterest n message = Inr False \<Longrightarrow> onBroadcast n message r = ([], Inr ())"
  "isNodeOfInterest n message = Inl ex \<Longrightarrow> onBroadcast n message r = ([], Inl ex)"
  "isNodeOfInterest n message = Inr True \<Longrightarrow> onNodeCallback n = Function f \<Longrightarrow>
   \<not> returns f \<Longrightarrow>
   onBroadcast n message r =
     ([Logger_debug ''got BROADCAST:'', Callback f message r], Inl ApplicationError)"
  "isNodeOfInterest n message = Inr True \<Longrightarrow> onNodeCallback n = Value v \<Longrightarrow>
   onBroadcast n message r = ([Logger_debug ''got BROADCAST:''], Inl TypeError)"
  by (simp_all add: onBroadcast_def pong_configured call_simps)

text \<open>
  The four rules of the interest filter, for an envelope whose \<^verbatim>\<open>from\<close> is a string and
  whose \<^verbatim>\<open>filter\<close> is absent or a list of strings, in terms of the role that the node
  holds in \<^verbatim>\<open>this.config.type\<close>.
\<close>

lemma isNodeOfInterest_rules:
  assumes "js_get (config n) ''id'' = JStr nid"
    and "get_prop message ''from'' = JStr sender"
    and "get_prop message ''filter''
           = (case roles of None \<Rightarrow> JUndefined | Some rs \<Rightarrow> JArr (map JStr rs))"
    and "js_get (config n) ''type'' = (case role of None \<Rightarrow> JUndefined | Some ro \<Rightarrow> JStr ro)"
  shows "isNodeOfInterest n message =
           Inr (if sender = nid then False
                else if roles = None \<or> roles = Some [] then True
                else if role = None then True
                else the role \<in> set (the roles))"
  using assms
  by (auto simp add: isNodeOfInterest_def array_indexOf_strings split: option.splits)

text \<open>A node that was constructed and set up holds no role, whatever its options were, so
  its answer depends on the sender alone.\<close>

lemma configured_node_ignores_filter:
  "isNodeOfInterest (fst (set_config (UdpNode uuid) cfg)) message =
     Inr (\<not> strict_eq (get_prop message ''from'')
               (js_get (config (fst (set_config (UdpNode uuid) cfg))) ''id''))"
  by (simp add: isNodeOfInterest_def role_never_stored)

lemma pong_node_B:
  "pong node_B message \<lparr>address = ''192.168.0.10'', port = p\<rparr> =
     ([Client_send (JSON_text (pong_of_B (if p = 0 then 3024 else int p)))
         (JNum (if p = 0 then 3024 else int p)) (JStr ''192.168.0.10'') (Value JUndefined)],
      Inr ())"
  by (simp add: pong_configured [OF wasSetup_node_B] js_or_def DEFAULT_PORT_def
      encode_pong_of_B [symmetric])
     (simp add: node_B_config js_get_def pong_of_B_def)

lemma strict_eq_string: "strict_eq a (JStr s) = (a = JStr s)"
  by (cases a) auto

lemma interest_node_B:
  "get_prop message ''from'' \<noteq> JStr ''b-uuid'' \<Longrightarrow> isNodeOfInterest node_B message = Inr True"
  "get_prop message ''from'' = JStr ''b-uuid'' \<Longrightarrow> isNodeOfInterest node_B message = Inr False"
  by (simp_all add: isNodeOfInterest_def node_B_config js_get_def strict_eq_string)


lemma onNode_rest:
  "wasSetup (onNode n callback) = wasSetup n"
  "listeners (onNode n callback) = listeners n"
  "onNodeCallback (onNode n callback) = callback"
  "events (onNode n callback) = events n"
  by (simp_all add: wasSetup_def onNode_def)


lemma broadcast_r1_fields:
  "get_prop broadcast_r1 ''filter'' = JArr [JStr ''r1'']"
  "get_prop broadcast_r1 ''type'' = JStr ''broadcast''"
  "get_prop broadcast_r1 ''from'' = JStr ''a-uuid''"
  by (simp_all add: broadcast_r1_def js_get_def)

text \<open>
  C1, at the input where the code leaves it. The second node was set up with role
  \<^verbatim>\<open>r2\<close>. A broadcast of another node whose filter is the list of \<^verbatim>\<open>r1\<close> alone is of interest
  to it all the same, and the node calls the discovery callback and sends its pong: the role
  was never stored, and the third rule of the filter answers for a node without a role.
\<close>

theorem role_filter_not_applied:
  "js_get (config node_B) ''type'' = JUndefined
   \<and> get_prop broadcast_r1 ''filter'' = JArr [JStr ''r1'']
   \<and> isNodeOfInterest node_B broadcast_r1 = Inr True
   \<and> message_listener (\<lambda>bytes. Some broadcast_r1) node_B ''datagram'' sender_A
      = ([Logger_debug ''got BROADCAST:'',
          Callback NO_OP broadcast_r1 sender_A,
          Client_send
            (JSON_text
               (JObj [(''type'', JStr ''pong''),
                      (''port'', JNum 3024),
                      (''address'', JStr ''192.168.0.10''),
                      (''node'', JObj (config node_B)),
                      (''from'', JStr ''b-uuid'')]))
            (JNum 3024) (JStr ''192.168.0.10'') (Value JUndefined)],
         Inr ())"
proof -
  have t: "js_get (config node_B) ''type'' = JUndefined"
    by (simp add: node_B_config js_get_def)
  have i: "isNodeOfInterest node_B broadcast_r1 = Inr True"
    by (rule interest_node_B(1)) (simp add: broadcast_r1_fields)
  have r: "returns NO_OP" by simp
  have p: "(\<lambda>bytes. Some broadcast_r1) ''datagram'' = Some broadcast_r1" by simp
  have "message_listener (\<lambda>bytes. Some broadcast_r1) node_B ''datagram'' sender_A
          = (Logger_debug ''got BROADCAST:'' # Callback NO_OP broadcast_r1 sender_A
               # fst (pong node_B broadcast_r1 sender_A), Inr ())"
    by (simp add: listener_broadcast [where JSON_parse = "\<lambda>bytes. Some broadcast_r1" and bytes = "''datagram''",
          OF p broadcast_r1_fields(2)]
        onBroadcast_interest(1) [OF wasSetup_node_B i node_B_rest(2) r])
  then have "message_listener (\<lambda>bytes. Some broadcast_r1) node_B ''datagram'' sender_A
      = ([Logger_debug ''got BROADCAST:'',
          Callback NO_OP broadcast_r1 sender_A,
          Client_send (JSON_text (pong_of_B 3024))
            (JNum 3024) (JStr ''192.168.0.10'') (Value JUndefined)],
         Inr ())"
    by (simp add: sender_A_def pong_node_B)
  with t i show ?thesis
    by (simp add: broadcast_r1_fields pong_of_B_def node_B_config)
qed

theorem role_filter_not_applied_witness:
  "truthy (get_prop broadcast_r1 ''filter'')
   \<and> truthy (js_length (get_prop broadcast_r1 ''filter''))
   \<and> \<not> strict_eq (get_prop broadcast_r1 ''from'') (js_get (config node_B) ''id'')
   \<and> isNodeOfInterest node_B broadcast_r1 = Inr True"
proof -
  have "get_prop broadcast_r1 ''from'' = JStr ''a-uuid''"
    by (simp add: broadcast_r1_def js_get_def)
  moreover have "js_get (config node_B) ''id'' = JStr ''b-uuid''"
    by (simp add: node_B_config js_get_def)
  ultimately show ?thesis
    using role_filter_not_applied by simp
qed




lemma dispatch_custom:
  assumes "JSON_parse bytes = Some message" and "message \<noteq> JNull" and "message \<noteq> JUndefined"
    and "get_prop message ''type'' \<noteq> JStr ''ping''"
    and "get_prop message ''type'' \<noteq> JStr ''pong''"
    and "get_prop message ''type'' \<noteq> JStr ''broadcast''"
  shows "dispatch JSON_parse n bytes r =
           (case isCustomEvent n (get_prop message ''type'') of
              Inl ex \<Rightarrow> ([], Inl ex)
            | Inr True \<Rightarrow>
                (case onCustomEvent n (get_prop message ''type'') message r of
                   (es, Inl ex) \<Rightarrow> (es, Inl ex)
                 | (es, Inr u) \<Rightarrow> (es, Inr True))
            | Inr False \<Rightarrow> ([], Inr False))"
  using assms by (simp add: dispatch_def split: sum.splits bool.splits prod.splits)

lemma listener_unregistered:
  assumes "JSON_parse bytes = Some message" and "message \<noteq> JNull" and "message \<noteq> JUndefined"
    and "get_prop message ''type'' \<noteq> JStr ''ping''"
    and "get_prop message ''type'' \<noteq> JStr ''pong''"
    and "get_prop message ''type'' \<noteq> JStr ''broadcast''"
    and "to_key (get_prop message ''type'') = Inr k"
    and "map_of (events n) k = None"
  shows "message_listener JSON_parse n bytes r =
           (if k \<in> set Object_prototype_names
            then [Logger_debug (''got '' @ k @ '':''),
                  Logger_error ''could not parse client message'',
                  Logger_debug ''got INVALID message:'']
            else [Logger_debug ''got INVALID message:''],
            Inr ())"
  using assms(7,8)
  by (simp add: message_listener_def
      dispatch_custom [where JSON_parse = JSON_parse and bytes = bytes, OF assms(1-6)]
      isCustomEvent_def onCustomEvent_def events_get_def)

lemma listener_no_key:
  assumes "JSON_parse bytes = Some message" and "message \<noteq> JNull" and "message \<noteq> JUndefined"
    and "to_key (get_prop message ''type'') = Inl ex"
  shows "message_listener JSON_parse n bytes r =
           ([Logger_error ''could not parse client message'',
             Logger_debug ''got INVALID message:''], Inr ())"
proof -
  from assms(4) have "get_prop message ''type'' \<noteq> JStr ''ping''"
    "get_prop message ''type'' \<noteq> JStr ''pong''"
    "get_prop message ''type'' \<noteq> JStr ''broadcast''"
    by auto
  note d = dispatch_custom [where JSON_parse = JSON_parse and bytes = bytes, OF assms(1-3) this]
  show ?thesis
    using assms(4) by (simp add: message_listener_def d isCustomEvent_def)
qed

text \<open>
  C5, as the code has it. A datagram that \<^verbatim>\<open>JSON.parse\<close> rejects, or parses to
  \<^verbatim>\<open>null\<close>, is logged as an error and as an invalid message, and nothing else happens:
  no callback, no datagram. The same holds for one whose type cannot be made a property
  name. One that parses to a value whose type is none of the three built-in ones and, as a
  property name, has no entry of its own in the registry is logged as an invalid message,
  after an error where \<^verbatim>\<open>Object.prototype\<close> has the name, and nothing else happens
  either; this is stated for a type that prints as in JavaScript. Every listener returns normally for every datagram, and it does not write to the
  node, so in every sequence of datagrams each one is handled as it would be alone, whatever
  came before it.
\<close>

theorem undecodable_datagram_dropped:
  "(JSON_parse bytes = None \<or> JSON_parse bytes = Some JNull \<longrightarrow>
      message_listener JSON_parse n bytes r =
        ([Logger_error ''could not parse client message'',
          Logger_debug ''got INVALID message:''], Inr ()))
   \<and> (JSON_parse bytes = Some message \<and> message \<noteq> JNull \<and> message \<noteq> JUndefined
        \<and> to_key (get_prop message ''type'') = Inl ex \<longrightarrow>
        message_listener JSON_parse n bytes r =
          ([Logger_error ''could not parse client message'',
            Logger_debug ''got INVALID message:''], Inr ()))
   \<and> (JSON_parse bytes = Some message \<and> message \<noteq> JNull \<and> message \<noteq> JUndefined
        \<and> get_prop message ''type'' \<noteq> JStr ''ping''
        \<and> get_prop message ''type'' \<noteq> JStr ''pong''
        \<and> get_prop message ''type'' \<noteq> JStr ''broadcast''
        \<and> safe (get_prop message ''type'')
        \<and> to_key (get_prop message ''type'') = Inr k
        \<and> map_of (events n) k = None \<longrightarrow>
        message_listener JSON_parse n bytes r =
          (if k \<in> set Object_prototype_names
           then [Logger_debug (''got '' @ k @ '':''),
                 Logger_error ''could not parse client message'',
                 Logger_debug ''got INVALID message:'']
           else [Logger_debug ''got INVALID message:''],
           Inr ()))
   \<and> snd (message_listener JSON_parse n bytes r) = Inr ()
   \<and> emit_message JSON_parse n bytes r =
        (concat (replicate (listeners n) (fst (message_listener JSON_parse n bytes r))), Inr ())
   \<and> receive JSON_parse n ds =
        (concat (map (\<lambda>(b, s). fst (emit_message JSON_parse n b s)) ds), Inr ())"
proof (intro conjI impI)
  assume "JSON_parse bytes = None \<or> JSON_parse bytes = Some JNull"
  then show "message_listener JSON_parse n bytes r =
        ([Logger_error ''could not parse client message'',
          Logger_debug ''got INVALID message:''], Inr ())"
    by (auto simp add: message_listener_def dispatch_unparsable dispatch_null)
next
  assume a: "JSON_parse bytes = Some message \<and> message \<noteq> JNull \<and> message \<noteq> JUndefined
        \<and> to_key (get_prop message ''type'') = Inl ex"
  show "message_listener JSON_parse n bytes r =
          ([Logger_error ''could not parse client message'',
            Logger_debug ''got INVALID message:''], Inr ())"
    by (rule listener_no_key [where message = message and ex = ex]) (simp_all add: a)
next
  assume a: "JSON_parse bytes = Some message \<and> message \<noteq> JNull \<and> message \<noteq> JUndefined
        \<and> get_prop message ''type'' \<noteq> JStr ''ping''
        \<and> get_prop message ''type'' \<noteq> JStr ''pong''
        \<and> get_prop message ''type'' \<noteq> JStr ''broadcast''
        \<and> safe (get_prop message ''type'')
        \<and> to_key (get_prop message ''type'') = Inr k
        \<and> map_of (events n) k = None"
  show "message_listener JSON_parse n bytes r =
          (if k \<in> set Object_prototype_names
           then [Logger_debug (''got '' @ k @ '':''),
                 Logger_error ''could not parse client message'',
                 Logger_debug ''got INVALID message:'']
           else [Logger_debug ''got INVALID message:''],
           Inr ())"
    by (rule listener_unregistered [where message = message]) (simp_all add: a)
next
  show "snd (message_listener JSON_parse n bytes r) = Inr ()"
    by (rule message_listener_returns)
next
  show "emit_message JSON_parse n bytes r =
        (concat (replicate (listeners n) (fst (message_listener JSON_parse n bytes r))), Inr ())"
    by (rule emit_message_all)
next
  show "receive JSON_parse n ds =
        (concat (map (\<lambda>(b, s). fst (emit_message JSON_parse n b s)) ds), Inr ())"
    by (rule receive_all)
qed

theorem undecodable_datagram_dropped_witness:
  "decode (Cut_short (JObj [(''type'', JStr ''ping'')])) = None
   \<and> message_listener decode node_B (Cut_short (JObj [(''type'', JStr ''ping'')])) sender_A
      = ([Logger_error ''could not parse client message'',
          Logger_debug ''got INVALID message:''], Inr ())
   \<and> to_key (get_prop (JObj [(''type'', JObj [(''toString'', JNum 1)])]) ''type'')
        = Inl TypeError
   \<and> message_listener decode node_B
        (JSON_text (JObj [(''type'', JObj [(''toString'', JNum 1)])])) sender_A
      = ([Logger_error ''could not parse client message'',
          Logger_debug ''got INVALID message:''], Inr ())
   \<and> to_key (get_prop (JObj [(''type'', JStr ''constructor'')]) ''type'') = Inr ''constructor''
   \<and> map_of (events node_B) ''constructor'' = None
   \<and> message_listener decode node_B (JSON_text (JObj [(''type'', JStr ''constructor'')]))
        sender_A
      = ([Logger_debug ''got constructor:'',
          Logger_error ''could not parse client message'',
          Logger_debug ''got INVALID message:''], Inr ())
   \<and> to_key (get_prop (JNum 5) ''type'') = Inr ''undefined''
   \<and> map_of (events node_B) ''undefined'' = None
   \<and> message_listener decode node_B (JSON_text (JNum 5)) sender_A
      = ([Logger_debug ''got INVALID message:''], Inr ())
   \<and> receive decode node_B
        [(Cut_short (JObj [(''type'', JStr ''ping'')]), sender_A),
         (JSON_text (JNum 5), sender_A)]
      = ([Logger_error ''could not parse client message'',
          Logger_debug ''got INVALID message:'',
          Logger_debug ''got INVALID message:''],
         Inr ())"
proof -
  let ?cut = "Cut_short (JObj [(''type'', JStr ''ping'')])"
  let ?obj = "JObj [(''type'', JObj [(''toString'', JNum 1)])]"
  let ?con = "JObj [(''type'', JStr ''constructor'')]"
  let ?ds = "[(?cut, sender_A), (JSON_text (JNum 5), sender_A)]"
  note w1 = undecodable_datagram_dropped
      [where JSON_parse = decode and bytes = ?cut and n = node_B and r = sender_A and ds = ?ds]
  note w2 = undecodable_datagram_dropped
      [where JSON_parse = decode and bytes = "JSON_text ?obj" and n = node_B and r = sender_A
         and message = ?obj and ex = TypeError]
  note w3 = undecodable_datagram_dropped
      [where JSON_parse = decode and bytes = "JSON_text ?con" and n = node_B and r = sender_A
         and message = ?con and k = "''constructor''"]
  note w4 = undecodable_datagram_dropped
      [where JSON_parse = decode and bytes = "JSON_text (JNum 5)" and n = node_B
         and r = sender_A and message = "JNum 5" and k = "''undefined''"]
  have u: "decode ?cut = None" by simp
  have k2: "to_key (get_prop ?obj ''type'') = Inl TypeError" by (simp add: js_get_def)
  have k3: "to_key (get_prop ?con ''type'') = Inr ''constructor''" by (simp add: js_get_def)
  have k4: "to_key (get_prop (JNum 5) ''type'') = Inr ''undefined''" by simp
  have e: "map_of (events node_B) ''constructor'' = None"
    "map_of (events node_B) ''undefined'' = None"
    by (simp_all add: node_B_rest)
  have names: "''constructor'' \<in> set Object_prototype_names"
    "''undefined'' \<notin> set Object_prototype_names"
    by (simp_all add: Object_prototype_names_def)
  have one: "message_listener decode node_B ?cut sender_A
      = ([Logger_error ''could not parse client message'',
          Logger_debug ''got INVALID message:''], Inr ())"
    using w1 [THEN conjunct1] u by simp
  have two: "message_listener decode node_B (JSON_text ?obj) sender_A
      = ([Logger_error ''could not parse client message'',
          Logger_debug ''got INVALID message:''], Inr ())"
    using w2 [THEN conjunct2, THEN conjunct1] k2 by simp
  have three: "message_listener decode node_B (JSON_text ?con) sender_A
      = ([Logger_debug ''got constructor:'',
          Logger_error ''could not parse client message'',
          Logger_debug ''got INVALID message:''], Inr ())"
    using w3 [THEN conjunct2, THEN conjunct2, THEN conjunct1] k3 e(1) names(1)
    by (simp add: js_get_def)
  have four: "message_listener decode node_B (JSON_text (JNum 5)) sender_A
      = ([Logger_debug ''got INVALID message:''], Inr ())"
    using w4 [THEN conjunct2, THEN conjunct2, THEN conjunct1] k4 e(2) names(2) by simp
  have five: "receive decode node_B ?ds
      = ([Logger_error ''could not parse client message'',
          Logger_debug ''got INVALID message:'',
          Logger_debug ''got INVALID message:''],
         Inr ())"
    using w1 [THEN conjunct2, THEN conjunct2, THEN conjunct2, THEN conjunct2, THEN conjunct2]
    by (simp add: emit_message_once [OF node_B_rest(4)] one four del: receive.simps)
  show ?thesis
    by (intro conjI) (rule u one k2 two k3 e three k4 four five)+
qed

text \<open>
  C5, as the specification has it, fails for a datagram that decodes to an envelope with a
  built-in type and nothing else: \<^verbatim>\<open>{"type":"ping"}\<close> has no sender, no identity, no port
  and no address, and the node does not drop it. It calls the discovery callback and sends a
  pong to where the datagram came from.
\<close>

theorem bare_ping_answered_counterexample:
  "decode (JSON_text (JObj [(''type'', JStr ''ping'')])) = Some (JObj [(''type'', JStr ''ping'')])
   \<and> get_prop (JObj [(''type'', JStr ''ping'')]) ''from'' = JUndefined
   \<and> get_prop (JObj [(''type'', JStr ''ping'')]) ''node'' = JUndefined
   \<and> get_prop (JObj [(''type'', JStr ''ping'')]) ''port'' = JUndefined
   \<and> get_prop (JObj [(''type'', JStr ''ping'')]) ''address'' = JUndefined
   \<and> emit_message decode node_B (JSON_text (JObj [(''type'', JStr ''ping'')])) sender_A
      = ([Logger_debug ''got PING:'',
          Callback NO_OP (JObj [(''type'', JStr ''ping'')]) sender_A,
          Client_send (JSON_text (pong_of_B 3024))
            (JNum 3024) (JStr ''192.168.0.10'') (Value JUndefined)],
         Inr ())"
proof -
  let ?m = "JObj [(''type'', JStr ''ping'')]"
  have f: "get_prop ?m ''type'' = JStr ''ping''" "get_prop ?m ''from'' = JUndefined"
    by (simp_all add: js_get_def)
  have i: "isNodeOfInterest node_B ?m = Inr True"
    by (rule interest_node_B(1)) (simp add: js_get_def)
  have p: "decode (JSON_text ?m) = Some ?m" by simp
  have r: "returns NO_OP" by simp
  note l = listener_ping [where JSON_parse = decode and bytes = "JSON_text ?m", OF p f(1)]
  have "emit_message decode node_B (JSON_text ?m) sender_A
      = ([Logger_debug ''got PING:'',
          Callback NO_OP ?m sender_A,
          Client_send (JSON_text (pong_of_B 3024))
            (JNum 3024) (JStr ''192.168.0.10'') (Value JUndefined)],
         Inr ())"
    by (simp add: emit_message_once [OF node_B_rest(4)] l
        onPing_interest(1) [OF wasSetup_node_B i node_B_rest(2) r])
       (simp add: sender_A_def pong_node_B)
  then show ?thesis by (simp add: js_get_def)
qed

text \<open>
  C9. For every inbound pong the node calls what the discovery slot holds with the envelope
  and the sender and does nothing else but log: the envelope's \<^verbatim>\<open>from\<close> and
  \<^verbatim>\<open>filter\<close> are not looked at, and no datagram is sent. Where the callback throws, or
  where the slot holds something that is not a function so that the call itself throws, the
  listener logs the error as well.
\<close>

theorem pong_always_reported:
  "(onNodeCallback n = Function f \<longrightarrow>
      onPong n message r =
        ([Logger_debug ''got PONG:'', Callback f message r],
         if returns f then Inr () else Inl ApplicationError))
   \<and> (onNodeCallback n = Value v \<longrightarrow>
        onPong n message r = ([Logger_debug ''got PONG:''], Inl TypeError))
   \<and> (JSON_parse bytes = Some message \<and> get_prop message ''type'' = JStr ''pong'' \<longrightarrow>
        (onNodeCallback n = Function f \<and> returns f \<longrightarrow>
           message_listener JSON_parse n bytes r =
             ([Logger_debug ''got PONG:'', Callback f message r], Inr ()))
        \<and> (onNodeCallback n = Function f \<and> \<not> returns f \<longrightarrow>
             message_listener JSON_parse n bytes r =
               ([Logger_debug ''got PONG:'', Callback f message r,
                 Logger_error ''could not parse client message'',
                 Logger_debug ''got INVALID message:''], Inr ()))
        \<and> (onNodeCallback n = Value v \<longrightarrow>
             message_listener JSON_parse n bytes r =
               ([Logger_debug ''got PONG:'',
                 Logger_error ''could not parse client message'',
                 Logger_debug ''got INVALID message:''], Inr ()))
        \<and> (\<forall>e \<in> set (fst (message_listener JSON_parse n bytes r)). \<not> is_send e)
        \<and> (\<forall>e \<in> set (fst (emit_message JSON_parse n bytes r)). \<not> is_send e))"
proof (intro conjI impI)
  assume "onNodeCallback n = Function f"
  then show "onPong n message r =
        ([Logger_debug ''got PONG:'', Callback f message r],
         if returns f then Inr () else Inl ApplicationError)"
    by (simp add: onPong_def call_simps)
next
  assume "onNodeCallback n = Value v"
  then show "onPong n message r = ([Logger_debug ''got PONG:''], Inl TypeError)"
    by (simp add: onPong_def call_simps)
next
  assume a: "JSON_parse bytes = Some message \<and> get_prop message ''type'' = JStr ''pong''"
  note l = listener_pong [where JSON_parse = JSON_parse and bytes = bytes,
      OF a [THEN conjunct1] a [THEN conjunct2]]
  {
    assume "onNodeCallback n = Function f \<and> returns f"
    then show "message_listener JSON_parse n bytes r =
             ([Logger_debug ''got PONG:'', Callback f message r], Inr ())"
      by (simp add: l onPong_def call_simps)
  next
    assume "onNodeCallback n = Function f \<and> \<not> returns f"
    then show "message_listener JSON_parse n bytes r =
               ([Logger_debug ''got PONG:'', Callback f message r,
                 Logger_error ''could not parse client message'',
                 Logger_debug ''got INVALID message:''], Inr ())"
      by (simp add: l onPong_def call_simps)
  next
    assume "onNodeCallback n = Value v"
    then show "message_listener JSON_parse n bytes r =
               ([Logger_debug ''got PONG:'',
                 Logger_error ''could not parse client message'',
                 Logger_debug ''got INVALID message:''], Inr ())"
      by (simp add: l onPong_def call_simps)
  next
    show m: "\<forall>e \<in> set (fst (message_listener JSON_parse n bytes r)). \<not> is_send e"
      using call_no_send [of "onNodeCallback n" message r]
      by (cases "call (onNodeCallback n) message r")
         (auto simp add: l onPong_def split: sum.splits)
    show "\<forall>e \<in> set (fst (emit_message JSON_parse n bytes r)). \<not> is_send e"
      using m by (simp add: emit_message_all)
  }
qed

theorem pong_always_reported_witness:
  "decode (JSON_text (JObj [(''type'', JStr ''pong''), (''from'', JStr ''b-uuid''),
                            (''filter'', JArr [JStr ''r1''])]))
     = Some (JObj [(''type'', JStr ''pong''), (''from'', JStr ''b-uuid''),
                   (''filter'', JArr [JStr ''r1''])])
   \<and> get_prop (JObj [(''type'', JStr ''pong''), (''from'', JStr ''b-uuid''),
                     (''filter'', JArr [JStr ''r1''])]) ''type'' = JStr ''pong''
   \<and> onNodeCallback (onNode node_B (Function (Closure 7))) = Function (Closure 7)
   \<and> returns (Closure 7)
   \<and> message_listener decode (onNode node_B (Function (Closure 7)))
        (JSON_text (JObj [(''type'', JStr ''pong''), (''from'', JStr ''b-uuid''),
                          (''filter'', JArr [JStr ''r1''])])) sender_A
      = ([Logger_debug ''got PONG:'',
          Callback (Closure 7)
            (JObj [(''type'', JStr ''pong''), (''from'', JStr ''b-uuid''),
                   (''filter'', JArr [JStr ''r1''])]) sender_A],
         Inr ())
   \<and> onNodeCallback (onNode node_B (Value JUndefined)) = Value JUndefined
   \<and> message_listener decode (onNode node_B (Value JUndefined))
        (JSON_text (JObj [(''type'', JStr ''pong''), (''from'', JStr ''b-uuid''),
                          (''filter'', JArr [JStr ''r1''])])) sender_A
      = ([Logger_debug ''got PONG:'',
          Logger_error ''could not parse client message'',
          Logger_debug ''got INVALID message:''],
         Inr ())"
proof -
  let ?m = "JObj [(''type'', JStr ''pong''), (''from'', JStr ''b-uuid''),
                  (''filter'', JArr [JStr ''r1''])]"
  have p: "decode (JSON_text ?m) = Some ?m" by simp
  have t: "get_prop ?m ''type'' = JStr ''pong''" by (simp add: js_get_def)
  have s: "onNodeCallback (onNode node_B (Function (Closure 7))) = Function (Closure 7)"
    "onNodeCallback (onNode node_B (Value JUndefined)) = Value JUndefined"
    by (simp_all add: onNode_rest)
  have r: "returns (Closure 7)" by simp
  note w1 = pong_always_reported
      [where JSON_parse = decode and bytes = "JSON_text ?m" and message = ?m
         and n = "onNode node_B (Function (Closure 7))" and f = "Closure 7" and r = sender_A,
       THEN conjunct2, THEN conjunct2, THEN mp, OF conjI [OF p t]]
  note w2 = pong_always_reported
      [where JSON_parse = decode and bytes = "JSON_text ?m" and message = ?m
         and n = "onNode node_B (Value JUndefined)" and v = JUndefined and r = sender_A,
       THEN conjunct2, THEN conjunct2, THEN mp, OF conjI [OF p t]]
  note one = w1 [THEN conjunct1, THEN mp, OF conjI [OF s(1) r]]
  note two = w2 [THEN conjunct2, THEN conjunct2, THEN conjunct1, THEN mp, OF s(2)]
  show ?thesis
    by (intro conjI) (rule p t s r one two)+
qed

section \<open>The registry of custom events\<close>

lemma events_get_simps:
  "map_of (events n) type = Some callbacks \<Longrightarrow> events_get n type = Own callbacks"
  "map_of (events n) type = None \<Longrightarrow> type \<in> set Object_prototype_names \<Longrightarrow>
     events_get n type = Inherited"
  "map_of (events n) type = None \<Longrightarrow> type \<notin> set Object_prototype_names \<Longrightarrow>
     events_get n type = Missing"
  by (simp_all add: events_get_def)

lemma on_function:
  assumes "type \<noteq> []" and "type \<notin> set Object_prototype_names"
  shows "snd (on n type (Function f)) = Inr ()
         \<and> map_of (events (fst (on n type (Function f))))
             = (map_of (events n))(type \<mapsto> registered n type @ [Function f])"
  using assms
  by (cases "map_of (events n) type")
     (simp_all add: on_def registered_def Let_def update_conv' events_get_def)

lemma on_inherited:
  assumes "type \<in> set Object_prototype_names" and "map_of (events n) type = None"
  shows "on n type (Function f) = (n, Inl TypeError)"
proof -
  from assms(1) have "type \<noteq> []" by (auto simp add: Object_prototype_names_def)
  with assms show ?thesis by (simp add: on_def Let_def events_get_def)
qed

lemma on_rejects:
  "on n [] callback = (n, Inl MissingParamType)"
  "type \<noteq> [] \<Longrightarrow> \<not> truthy_arg callback \<Longrightarrow> on n type callback = (n, Inl MissingParamCallback)"
  "type \<noteq> [] \<Longrightarrow> truthy_arg callback \<Longrightarrow> \<not> is_function callback \<Longrightarrow>
     on n type callback = (n, Inl InvalidParamCallback)"
  by (simp_all add: on_def)

lemma off_whole:
  "type \<noteq> [] \<Longrightarrow>
   snd (off n type None) = Inr ()
   \<and> map_of (events (fst (off n type None))) = (map_of (events n))(type := None)
   \<and> isCustomEvent (fst (off n type None)) (JStr type)
       = Inr (type \<in> set Object_prototype_names)"
  by (simp add: off_def delete_conv' isCustomEvent_def events_get_def)

lemma off_index:
  "type \<noteq> [] \<Longrightarrow> map_of (events n) type = Some callbacks \<Longrightarrow>
   0 \<le> i \<Longrightarrow> i < int (length callbacks) \<Longrightarrow>
   snd (off n type (Some i)) = Inr ()
   \<and> map_of (events (fst (off n type (Some i))))
       = (map_of (events n))(type \<mapsto> take (nat i) callbacks @ drop (Suc (nat i)) callbacks)
   \<and> isCustomEvent (fst (off n type (Some i))) (JStr type) = Inr True"
  by (simp add: off_def update_conv' js_splice_one isCustomEvent_def events_get_def)

lemma off_missing:
  "type \<noteq> [] \<Longrightarrow> map_of (events n) type = None \<Longrightarrow> off n type (Some i) = (n, Inl TypeError)"
  by (simp add: off_def events_get_def)

lemma call_all_functions:
  "\<forall>f \<in> set fs. returns f \<Longrightarrow>
   call_all (map Function fs) message r = (map (\<lambda>f. Callback f message r) fs, Inr ())"
  by (induction fs) (simp_all add: call_simps)

text \<open>A message of a custom type that has an entry calls the listeners in the order of the
  list, as long as each of them returns.\<close>

lemma custom_dispatch:
  assumes "JSON_parse bytes = Some message"
    and "get_prop message ''type'' = JStr type"
    and "type \<noteq> ''ping''" and "type \<noteq> ''pong''" and "type \<noteq> ''broadcast''"
    and "map_of (events n) type = Some (map Function fs)"
    and "\<forall>f \<in> set fs. returns f"
  shows "message_listener JSON_parse n bytes r =
           (Logger_debug (''got '' @ type @ '':'') # map (\<lambda>f. Callback f message r) fs, Inr ())"
proof -
  note nn = typed_message [OF assms(2)]
  have "get_prop message ''type'' \<noteq> JStr ''ping''"
    "get_prop message ''type'' \<noteq> JStr ''pong''"
    "get_prop message ''type'' \<noteq> JStr ''broadcast''"
    using assms(2-5) by simp_all
  note d = dispatch_custom [where JSON_parse = JSON_parse and bytes = bytes,
      OF assms(1) nn [THEN conjunct1] nn [THEN conjunct2] this]
  show ?thesis
    by (simp add: message_listener_def d assms(2) isCustomEvent_def onCustomEvent_def
        events_get_simps(1) [OF assms(6)] call_all_functions [OF assms(7)])
qed

lemma on_all_registered:
  assumes "type \<noteq> []" and "type \<notin> set Object_prototype_names"
  shows "map_of (events (on_all n type fs)) =
           (if fs = [] then map_of (events n)
            else (map_of (events n))(type \<mapsto> registered n type @ map Function fs))"
proof (induction fs arbitrary: n)
  case Nil
  show ?case by simp
next
  case (Cons f fs)
  let ?n = "fst (on n type (Function f))"
  from on_function [OF assms, of n f]
  have ev: "map_of (events ?n) = (map_of (events n))(type \<mapsto> registered n type @ [Function f])"
    by simp
  then have reg: "registered ?n type = registered n type @ [Function f]"
    by (simp add: registered_def)
  show ?case
    using Cons.IH [of ?n] ev reg by (cases fs) simp_all
qed

text \<open>
  C6, at the input where the code leaves it. The registry is an object literal, and under a
  name that every object inherits, such as \<^verbatim>\<open>constructor\<close>, a read finds what
  \<^verbatim>\<open>Object.prototype\<close> has there. So \<^verbatim>\<open>on\<close> with such a type and a function makes no
  list and appends nothing: it throws a TypeError and leaves the node as it was, and a
  message of that type that comes in afterwards calls nothing and is logged as an error.
\<close>

theorem on_inherited_name_throws:
  "type \<in> set Object_prototype_names \<and> map_of (events n) type = None \<longrightarrow>
     type \<noteq> []
     \<and> is_function (Function f)
     \<and> on n type (Function f) = (n, Inl TypeError)
     \<and> (JSON_parse bytes = Some message \<and> get_prop message ''type'' = JStr type \<longrightarrow>
          message_listener JSON_parse (fst (on n type (Function f))) bytes r =
            ([Logger_debug (''got '' @ type @ '':''),
              Logger_error ''could not parse client message'',
              Logger_debug ''got INVALID message:''], Inr ()))"
proof (intro impI conjI)
  assume a: "type \<in> set Object_prototype_names \<and> map_of (events n) type = None"
  then show "type \<noteq> []" by (auto simp add: Object_prototype_names_def)
  show "is_function (Function f)" by simp
  from a show o: "on n type (Function f) = (n, Inl TypeError)" by (simp add: on_inherited)
  assume b: "JSON_parse bytes = Some message \<and> get_prop message ''type'' = JStr type"
  note nn = typed_message [OF b [THEN conjunct2]]
  from a have t: "type \<noteq> ''ping''" "type \<noteq> ''pong''" "type \<noteq> ''broadcast''"
    by (auto simp add: Object_prototype_names_def)
  have "message_listener JSON_parse n bytes r =
           (if type \<in> set Object_prototype_names
            then [Logger_debug (''got '' @ type @ '':''),
                  Logger_error ''could not parse client message'',
                  Logger_debug ''got INVALID message:'']
            else [Logger_debug ''got INVALID message:''],
            Inr ())"
    by (rule listener_unregistered [where message = message]) (simp_all add: a b nn t)
  with a show "message_listener JSON_parse (fst (on n type (Function f))) bytes r =
            ([Logger_debug (''got '' @ type @ '':''),
              Logger_error ''could not parse client message'',
              Logger_debug ''got INVALID message:''], Inr ())"
    by (simp add: o)
qed

theorem on_inherited_name_throws_witness:
  "''constructor'' \<in> set Object_prototype_names
   \<and> map_of (events node_B) ''constructor'' = None
   \<and> on node_B ''constructor'' (Function (Closure 1)) = (node_B, Inl TypeError)
   \<and> decode (JSON_text (JObj [(''type'', JStr ''constructor'')]))
        = Some (JObj [(''type'', JStr ''constructor'')])
   \<and> message_listener decode (fst (on node_B ''constructor'' (Function (Closure 1))))
        (JSON_text (JObj [(''type'', JStr ''constructor'')])) sender_A
      = ([Logger_debug ''got constructor:'',
          Logger_error ''could not parse client message'',
          Logger_debug ''got INVALID message:''], Inr ())"
proof -
  let ?m = "JObj [(''type'', JStr ''constructor'')]"
  have a: "''constructor'' \<in> set Object_prototype_names"
    by (simp add: Object_prototype_names_def)
  have b: "map_of (events node_B) ''constructor'' = None" by (simp add: node_B_rest)
  have p: "decode (JSON_text ?m) = Some ?m" by simp
  have t: "get_prop ?m ''type'' = JStr ''constructor''" by (simp add: js_get_def)
  note w = on_inherited_name_throws
      [where JSON_parse = decode and bytes = "JSON_text ?m" and message = ?m and n = node_B
         and type = "''constructor''" and f = "Closure 1" and r = sender_A,
       THEN mp, OF conjI [OF a b]]
  note one = w [THEN conjunct2, THEN conjunct2, THEN conjunct1]
  note two = w [THEN conjunct2, THEN conjunct2, THEN conjunct2, THEN mp, OF conjI [OF p t]]
  have three: "message_listener decode (fst (on node_B ''constructor'' (Function (Closure 1))))
        (JSON_text ?m) sender_A
      = ([Logger_debug ''got constructor:'',
          Logger_error ''could not parse client message'',
          Logger_debug ''got INVALID message:''], Inr ())"
    using two by simp
  show ?thesis
    by (intro conjI) (rule a b one p three)+
qed

text \<open>
  C10, as the code has it. For every type string that is not empty and has no entry in the
  registry, because none was ever made or because \<^verbatim>\<open>off(type)\<close> removed it,
  \<^verbatim>\<open>off(type, index)\<close> with an index throws a TypeError and leaves the node as it was.
  For the empty type string it throws the error for a missing type.
\<close>

theorem off_unregistered_index:
  "(type \<noteq> [] \<and> map_of (events n) type = None \<longrightarrow>
      off n type (Some i) = (n, Inl TypeError))
   \<and> (type \<noteq> [] \<longrightarrow> off (UdpNode uuid) type (Some i) = (UdpNode uuid, Inl TypeError))
   \<and> (type \<noteq> [] \<longrightarrow>
        off (fst (off n type None)) type (Some i) = (fst (off n type None), Inl TypeError))
   \<and> off n [] (Some i) = (n, Inl MissingParamType)"
proof (intro conjI impI)
  show "off n [] (Some i) = (n, Inl MissingParamType)" by (simp add: off_def)
next
  assume "type \<noteq> [] \<and> map_of (events n) type = None"
  then show "off n type (Some i) = (n, Inl TypeError)" by (simp add: off_missing)
next
  assume "type \<noteq> []"
  then show "off (UdpNode uuid) type (Some i) = (UdpNode uuid, Inl TypeError)"
    by (simp add: off_missing UdpNode_def)
next
  assume t: "type \<noteq> []"
  then have "map_of (events (fst (off n type None))) type = None"
    by (simp add: off_whole)
  with t show "off (fst (off n type None)) type (Some i) = (fst (off n type None), Inl TypeError)"
    by (rule off_missing)
qed

theorem off_unregistered_index_witness:
  "''hello'' \<noteq> []
   \<and> off (UdpNode ''a-uuid'') ''hello'' (Some 0) = (UdpNode ''a-uuid'', Inl TypeError)
   \<and> snd (off (fst (off (on_all (UdpNode ''a-uuid'') ''hello'' [Closure 1]) ''hello'' None))
            ''hello'' (Some 0))
      = Inl TypeError"
  using off_unregistered_index [of "''hello''" "on_all (UdpNode ''a-uuid'') ''hello'' [Closure 1]"
          0 "''a-uuid''"]
  by simp

text \<open>
  C10, as the claim has it, fails for the empty string: it is a type string, it never has an
  entry, since \<^verbatim>\<open>on\<close> refuses it, and \<^verbatim>\<open>off\<close> with an index answers it with the error
  for a missing type, not with a TypeError.
\<close>

theorem off_empty_type_counterexample:
  "map_of (events (UdpNode ''a-uuid'')) [] = None
   \<and> off (UdpNode ''a-uuid'') [] (Some 0) = (UdpNode ''a-uuid'', Inl MissingParamType)
   \<and> snd (off (UdpNode ''a-uuid'') [] (Some 0)) \<noteq> Inl TypeError"
  by (simp add: off_def UdpNode_def)

section \<open>Setting up and closing\<close>

text \<open>
  C7, at the input where the code leaves it. The second node was set up with a name, a port
  and a role, given both as \<^verbatim>\<open>type\<close> and as \<^verbatim>\<open>role\<close>. Its configuration holds the id of
  the constructor, the port, the default broadcast address and the name, and no role under
  either name; setting it up again with another role does not store one either.
\<close>

theorem set_drops_role:
  "config node_B =
     [(''id'', JStr ''b-uuid''), (''port'', JNum 3025),
      (''broadcastAddress'', JStr ''255.255.255.255''), (''name'', JStr ''node2'')]
   \<and> js_get (config node_B) ''type'' = JUndefined
   \<and> js_get (config node_B) ''role'' = JUndefined
   \<and> config (fst (set_config node_B [(''type'', JStr ''r1''), (''role'', JStr ''r1'')])) =
       [(''id'', JStr ''b-uuid''), (''port'', JNum 3024),
        (''broadcastAddress'', JStr ''255.255.255.255''), (''name'', JNull)]"
  by (simp add: node_B_config set_config_def Let_def js_get_def js_or_def DEFAULT_PORT_def
      DEFAULT_BROADCAST_ADDRESS_def)

theorem set_drops_role_witness:
  "js_get [(''name'', JStr ''node2''), (''type'', JStr ''r2''), (''role'', JStr ''r2''),
           (''port'', JNum 3025)] ''type'' = JStr ''r2''
   \<and> js_get (config node_B) ''type'' = JUndefined
   \<and> js_get (config node_B) ''name'' = JStr ''node2''"
  using set_drops_role by (simp add: js_get_def)

lemma close_all_closed: "isClosed n \<Longrightarrow> close_all n callbacks = (n, [])"
  by (induction callbacks) (simp_all add: close_def)

text \<open>
  C8. A call of \<^verbatim>\<open>close\<close> after a first one changes nothing and does nothing. So however
  often a node that is open is closed, the socket is closed once, with the callback of the
  first call, and one line is logged. \<^verbatim>\<open>close\<close> has no path that throws.
\<close>

theorem close_idempotent:
  "close (fst (close n callback)) callback' = (fst (close n callback), [])
   \<and> (\<not> isClosed n \<longrightarrow>
        close_all n (callback # callbacks)
          = (n\<lparr>isClosed := True\<rparr>, [Logger_debug ''CLOSE'', Client_close callback]))"
  by (simp add: close_def close_all_closed)

theorem close_idempotent_witness:
  "\<not> isClosed (UdpNode ''a-uuid'')
   \<and> close (fst (close (UdpNode ''a-uuid'') (Value JUndefined))) (Function (Closure 1))
       = (fst (close (UdpNode ''a-uuid'') (Value JUndefined)), [])
   \<and> close_all (UdpNode ''a-uuid'') [Value JUndefined, Function (Closure 1), Value JUndefined]
       = ((UdpNode ''a-uuid'')\<lparr>isClosed := True\<rparr>,
          [Logger_debug ''CLOSE'', Client_close (Value JUndefined)])"
  using close_idempotent [of "UdpNode ''a-uuid''" "Value JUndefined" "Function (Closure 1)"
      "[Function (Closure 1), Value JUndefined]"]
  by (simp add: UdpNode_def)

end
